theory Spec2Isabelle
  imports Main
begin

section \<open>Data model (core/models.py)\<close>

text \<open>
  The models of \<^verbatim>\<open>core/models.py\<close> as records. A \<^verbatim>\<open>CharField\<close> with
  \<^verbatim>\<open>choices\<close> whose values the views only ever write as literals is a datatype
  (role, status, the audit action tag); free text that comes from the request stays a
  string (priority, comments). A foreign key is the primary key of the row it points to,
  \<open>None\<close> where the column is null. Timestamps are natural numbers.

  Left out: columns that no modelled view reads or writes by hand (contact data, logos,
  the \<^verbatim>\<open>auto_now\<close> / \<^verbatim>\<open>auto_now_add\<close> stamps of the log, notification and
  comment rows, \<^verbatim>\<open>updated_at\<close>), and the \<^verbatim>\<open>Comment\<close> table. The storage layer
  accepts every row a view hands to it: column lengths and \<^verbatim>\<open>choices\<close> are not
  checked by \<^verbatim>\<open>Model.save()\<close>, and what a database does with such a value is not
  part of the source.
\<close>

datatype role = MAC_OFFICER | MICAT_REVIEWER | ADMIN

datatype status = PENDING | UNDER_REVIEW | APPROVED | DENIED | RETURNED

datatype log_action =
    SUBMISSION_CREATED | SUBMISSION_UPDATED | SUBMISSION_REVIEWED | SUBMISSION_APPROVED
  | SUBMISSION_DENIED | SUBMISSION_RETURNED | SUBMISSION_PUBLISHED | COMMENT_ADDED
  | USER_LOGIN | USER_CREATED | USER_UPDATED | MAC_CREATED | MAC_UPDATED

record user =
  user_pk :: nat
  username :: string
  role :: role
  user_mac :: "nat option"
  user_is_active :: bool

record mac_row =
  acronym :: string
  mac_is_active :: bool

record submission =
  title :: string
  content_type :: "string option"
  description :: string
  tags :: string
  upload_file :: string
  mac :: nat
  submitted_by :: "nat option"
  reviewed_by :: "nat option"
  status :: status
  is_confidential :: bool
  is_published :: bool
  priority :: string
  reviewer_comments :: string
  denial_reason :: string
  submitted_at :: nat
  reviewed_at :: "nat option"
  approved_at :: "nat option"
  published_at :: "nat option"

record activity_log =
  log_user :: "nat option"
  log_action :: log_action
  log_submission :: "nat option"
  log_description :: string
  ip_address :: "string option"

record notification =
  notif_user :: nat
  notif_title :: string
  notif_message :: string
  notif_submission :: "nat option"
  is_read :: bool

text \<open>
  The database: one table per model. Submissions and MACs are looked up by primary key
  only, so they are maps; users are also filtered by column, and the two append-only
  tables are read as a whole, so they are lists in insertion order.
  \<open>submission_seq\<close> is the sequence that hands out the next submission key.
\<close>

record db =
  users :: "user list"
  macs :: "nat \<rightharpoonup> mac_row"
  submissions :: "nat \<rightharpoonup> submission"
  activity_logs :: "activity_log list"
  notifications :: "notification list"
  submission_seq :: nat

section \<open>Requests and responses\<close>

text \<open>
  What a view reads from \<^verbatim>\<open>request\<close>: the session's user (\<open>None\<close> for the
  anonymous user), the method, the \<^verbatim>\<open>POST\<close>, \<^verbatim>\<open>FILES\<close> and \<^verbatim>\<open>META\<close>
  dictionaries, and the clock: \<open>now rq k\<close> is what the \<open>k\<close>-th reading of the time
  during the request returns (\<^verbatim>\<open>timezone.now()\<close>, or the stamp of an
  \<^verbatim>\<open>auto_now_add\<close> column).
\<close>

record request =
  req_user :: "user option"
  req_method :: string
  POST :: "string \<rightharpoonup> string"
  FILES :: "string \<rightharpoonup> string"
  META :: "string \<rightharpoonup> string"
  now :: "nat \<Rightarrow> nat"

datatype response =
    Redirect_login
  | Http404
  | Server_error
  | Redirect string "nat option"
  | Render string

datatype level = Error | Success | Info | Warning

type_synonym message = "level \<times> string"

type_synonym result = "response \<times> message list \<times> db"

definition response_of :: "result \<Rightarrow> response" where
  "response_of r = fst r"

definition messages_of :: "result \<Rightarrow> message list" where
  "messages_of r = fst (snd r)"

definition db_of :: "result \<Rightarrow> db" where
  "db_of r = snd (snd r)"

text \<open>Python's truth value of \<^verbatim>\<open>dict.get(key)\<close>: false for a missing key and for the
  empty string.\<close>

definition truthy :: "string option \<Rightarrow> bool" where
  "truthy x = (case x of None \<Rightarrow> False | Some s \<Rightarrow> s \<noteq> [])"

text \<open>\<^verbatim>\<open>dict.get(key, default)\<close>.\<close>

definition get_default :: "(string \<rightharpoonup> string) \<Rightarrow> string \<Rightarrow> string \<Rightarrow> string" where
  "get_default m k dflt = (case m k of None \<Rightarrow> dflt | Some v \<Rightarrow> v)"

section \<open>Audit log and notifications (core/utils.py)\<close>

text \<open>\<^verbatim>\<open>log_activity\<close>: one new \<^verbatim>\<open>ActivityLog\<close> row, with the address taken
  from the first entry of the forwarding header when it is there.\<close>

definition log_activity ::
  "user \<Rightarrow> log_action \<Rightarrow> nat option \<Rightarrow> string \<Rightarrow> request option \<Rightarrow> db \<Rightarrow> db" where
  "log_activity usr act sub descr rq d =
     (let ip = (case rq of
                  None \<Rightarrow> None
                | Some r \<Rightarrow>
                    (let x_forwarded_for = META r ''HTTP_X_FORWARDED_FOR''
                     in if truthy x_forwarded_for
                        then map_option (takeWhile (\<lambda>c. c \<noteq> CHR '','')) x_forwarded_for
                        else META r ''REMOTE_ADDR''))
      in d\<lparr>activity_logs := activity_logs d @
             [\<lparr>log_user = Some (user_pk usr), log_action = act, log_submission = sub,
               log_description = descr, ip_address = ip\<rparr>]\<rparr>)"

text \<open>\<^verbatim>\<open>create_notification\<close>: one new unread \<^verbatim>\<open>Notification\<close> row for the
  user with the given key.\<close>

definition create_notification :: "nat \<Rightarrow> string \<Rightarrow> string \<Rightarrow> nat option \<Rightarrow> db \<Rightarrow> db" where
  "create_notification recipient ttl msg sub d =
     d\<lparr>notifications := notifications d @
         [\<lparr>notif_user = recipient, notif_title = ttl, notif_message = msg,
           notif_submission = sub, is_read = False\<rparr>]\<rparr>"

section \<open>Permission decorators\<close>

text \<open>Django's \<^verbatim>\<open>login_required\<close>: the anonymous user is sent to the login page.\<close>

definition login_required :: "(request \<Rightarrow> db \<Rightarrow> result) \<Rightarrow> request \<Rightarrow> db \<Rightarrow> result" where
  "login_required view_func rq d =
     (case req_user rq of
        None \<Rightarrow> (Redirect_login, [], d)
      | Some u \<Rightarrow> view_func rq d)"

definition permission_denied_page :: string where
  "permission_denied_page = ''You don'' @ [CHR 0x27] @ ''t have permission to access this page.''"

definition role_required ::
  "role list \<Rightarrow> (request \<Rightarrow> db \<Rightarrow> result) \<Rightarrow> request \<Rightarrow> db \<Rightarrow> result" where
  "role_required roles view_func rq d =
     (if (case req_user rq of None \<Rightarrow> False | Some u \<Rightarrow> role u \<in> set roles)
      then view_func rq d
      else (Redirect ''dashboard'' None, [(Error, permission_denied_page)], d))"

definition mac_officer_required :: "(request \<Rightarrow> db \<Rightarrow> result) \<Rightarrow> request \<Rightarrow> db \<Rightarrow> result" where
  "mac_officer_required view_func = role_required [MAC_OFFICER] view_func"

definition micat_reviewer_required :: "(request \<Rightarrow> db \<Rightarrow> result) \<Rightarrow> request \<Rightarrow> db \<Rightarrow> result" where
  "micat_reviewer_required view_func = role_required [MICAT_REVIEWER] view_func"

definition admin_required :: "(request \<Rightarrow> db \<Rightarrow> result) \<Rightarrow> request \<Rightarrow> db \<Rightarrow> result" where
  "admin_required view_func = role_required [ADMIN] view_func"

section \<open>The review view (core/views.py, submission\_review)\<close>

text \<open>\<^verbatim>\<open>submission.save()\<close>: the row under the key is replaced by the object in memory.\<close>

definition save :: "nat \<Rightarrow> submission \<Rightarrow> db \<Rightarrow> db" where
  "save pk s d = d\<lparr>submissions := (submissions d)(pk \<mapsto> s)\<rparr>"

text \<open>The title of the approval notification ends in U+1F389, four bytes in UTF-8.\<close>

definition approved_title :: string where
  "approved_title = ''Submission Approved! '' @ [CHR 0xF0, CHR 0x9F, CHR 0x8E, CHR 0x89]"

text \<open>
  The body of \<^verbatim>\<open>submission_review\<close>. On POST the reviewer fields are assigned
  first, whatever the action is; each of the three branches then sets the status, writes
  the audit row and, when the submission still has a submitter, the notification; the
  object is saved after the branches, also when none of them was taken.
  The anonymous user cannot be assigned to \<^verbatim>\<open>reviewed_by\<close>; the decorators keep
  that case away from the body.
\<close>

definition submission_review_view :: "nat \<Rightarrow> request \<Rightarrow> db \<Rightarrow> result" where
  "submission_review_view pk rq d =
     (case submissions d pk of
        None \<Rightarrow> (Http404, [], d)
      | Some submission \<Rightarrow>
          if req_method rq = ''POST'' then
            (case req_user rq of
               None \<Rightarrow> (Server_error, [], d)
             | Some usr \<Rightarrow>
                 (let action = POST rq ''action'';
                      comments = get_default (POST rq) ''reviewer_comments'' '''';
                      prio = get_default (POST rq) ''priority'' ''MEDIUM'';
                      s1 = submission\<lparr>reviewed_by := Some (user_pk usr),
                                       reviewed_at := Some (now rq 0),
                                       reviewer_comments := comments,
                                       priority := prio\<rparr>
                  in if action = Some ''approve'' then
                       (let s2 = s1\<lparr>status := APPROVED,
                                     approved_at := Some (now rq 1),
                                     is_published := (POST rq ''publish'' = Some ''on'')\<rparr>;
                            s3 = (if is_published s2
                                  then s2\<lparr>published_at := Some (now rq 2)\<rparr> else s2);
                            d1 = log_activity usr SUBMISSION_APPROVED (Some pk)
                                   (''Approved submission: '' @ title s3) (Some rq) d;
                            d2 = (case submitted_by s3 of
                                    None \<Rightarrow> d1
                                  | Some submitter \<Rightarrow>
                                      create_notification submitter approved_title
                                        (''Your submission '' @ [CHR 0x27] @ title s3 @ [CHR 0x27]
                                           @ '' has been approved and published.'')
                                        (Some pk) d1)
                        in (Redirect ''submission_detail'' (Some pk),
                            [(Success, ''Submission approved successfully!'')],
                            save pk s3 d2))
                     else if action = Some ''return'' then
                       (let s2 = s1\<lparr>status := RETURNED\<rparr>;
                            d1 = log_activity usr SUBMISSION_RETURNED (Some pk)
                                   (''Returned submission for edits: '' @ title s2) (Some rq) d;
                            d2 = (case submitted_by s2 of
                                    None \<Rightarrow> d1
                                  | Some submitter \<Rightarrow>
                                      create_notification submitter ''Submission Returned for Edits''
                                        (''Please review and update your submission '' @ [CHR 0x27]
                                           @ title s2 @ [CHR 0x27] @ ''. Comments: '' @ comments)
                                        (Some pk) d1)
                        in (Redirect ''submission_detail'' (Some pk),
                            [(Info, ''Submission returned for edits.'')],
                            save pk s2 d2))
                     else if action = Some ''deny'' then
                       (let s2 = s1\<lparr>status := DENIED,
                                     denial_reason := get_default (POST rq) ''denial_reason'' ''''\<rparr>;
                            d1 = log_activity usr SUBMISSION_DENIED (Some pk)
                                   (''Denied submission: '' @ title s2) (Some rq) d;
                            d2 = (case submitted_by s2 of
                                    None \<Rightarrow> d1
                                  | Some submitter \<Rightarrow>
                                      create_notification submitter ''Submission Denied''
                                        (''Your submission '' @ [CHR 0x27] @ title s2 @ [CHR 0x27]
                                           @ '' has been denied. Reason: '' @ denial_reason s2)
                                        (Some pk) d1)
                        in (Redirect ''submission_detail'' (Some pk),
                            [(Warning, ''Submission denied.'')],
                            save pk s2 d2))
                     else (Redirect ''submission_detail'' (Some pk), [], save pk s1 d)))
          else (Render ''core/submission_review.html'', [], d))"

text \<open>The view as the URL dispatcher calls it, under its two decorators.\<close>

definition submission_review :: "request \<Rightarrow> nat \<Rightarrow> db \<Rightarrow> result" where
  "submission_review rq pk d =
     login_required (micat_reviewer_required (submission_review_view pk)) rq d"

section \<open>Creating a submission (core/views.py, submission\_create)\<close>

text \<open>
  The body of \<^verbatim>\<open>submission_create\<close>. The only test on the officer's agency is
  \<^verbatim>\<open>if not user.mac\<close>, which loads the agency row when the foreign key is set; the
  row's \<^verbatim>\<open>is_active\<close> column is not read. The three required fields are checked
  for truth, the row is created with the model's defaults, the audit row is written, and
  the loop notifies each row of
  \<^verbatim>\<open>User.objects.filter(role='MICAT_REVIEWER', is_active=True)\<close>.
\<close>

definition submission_create_view :: "request \<Rightarrow> db \<Rightarrow> result" where
  "submission_create_view rq d =
     (case req_user rq of
        None \<Rightarrow> (Server_error, [], d)
      | Some usr \<Rightarrow>
          (case user_mac usr of
             None \<Rightarrow> (Redirect ''dashboard'' None,
                       [(Error, ''You must be assigned to a MAC to submit content.'')], d)
           | Some m \<Rightarrow>
               (case macs d m of
                  None \<Rightarrow> (Server_error, [], d)
                | Some user_mac_row \<Rightarrow>
                    if req_method rq = ''POST'' then
                      (let ttl = POST rq ''title'';
                           ctype = POST rq ''content_type'';
                           descr = POST rq ''description'';
                           tgs = get_default (POST rq) ''tags'' '''';
                           confidential = (POST rq ''is_confidential'' = Some ''on'');
                           fl = FILES rq ''file'';
                           errors = (if \<not> truthy ttl then [''Title is required''] else [])
                                  @ (if \<not> truthy descr then [''Description is required''] else [])
                                  @ (if \<not> truthy fl then [''File is required''] else [])
                       in if errors \<noteq> [] then
                            (Render ''core/submission_create.html'', map (Pair Error) errors, d)
                          else
                            (case (ttl, descr, fl) of
                               (Some t, Some ds, Some f) \<Rightarrow>
                                 (let pk = submission_seq d;
                                      new = \<lparr>title = t, content_type = ctype, description = ds,
                                             tags = tgs, upload_file = f, mac = m,
                                             submitted_by = Some (user_pk usr),
                                             reviewed_by = None, status = PENDING,
                                             is_confidential = confidential,
                                             is_published = False, priority = ''MEDIUM'',
                                             reviewer_comments = '''', denial_reason = '''',
                                             submitted_at = now rq 0, reviewed_at = None,
                                             approved_at = None, published_at = None\<rparr>;
                                      d1 = d\<lparr>submissions := (submissions d)(pk \<mapsto> new),
                                             submission_seq := Suc pk\<rparr>;
                                      d2 = log_activity usr SUBMISSION_CREATED (Some pk)
                                             (''Created submission: '' @ t) (Some rq) d1;
                                      micat_reviewers =
                                        filter (\<lambda>u. role u = MICAT_REVIEWER \<and> user_is_active u)
                                          (users d2);
                                      d3 = fold (\<lambda>reviewer.
                                                   create_notification (user_pk reviewer)
                                                     ''New Submission''
                                                     (acronym user_mac_row @ '' submitted: '' @ t)
                                                     (Some pk))
                                             micat_reviewers d2
                                  in (Redirect ''submission_detail'' (Some pk),
                                      [(Success, ''Submission created successfully! It'' @ [CHR 0x27]
                                                   @ ''s now pending review.'')],
                                      d3))
                             | _ \<Rightarrow> (Server_error, [], d)))
                    else (Render ''core/submission_create.html'', [], d))))"

definition submission_create :: "request \<Rightarrow> db \<Rightarrow> result" where
  "submission_create rq d = login_required (mac_officer_required submission_create_view) rq d"

section \<open>Editing a submission (core/models.py, core/views.py)\<close>

definition is_mac_officer :: "user \<Rightarrow> bool" where
  "is_mac_officer u = (role u = MAC_OFFICER)"

definition is_micat_reviewer :: "user \<Rightarrow> bool" where
  "is_micat_reviewer u = (role u = MICAT_REVIEWER)"

definition is_admin :: "user \<Rightarrow> bool" where
  "is_admin u = (role u = ADMIN)"

text \<open>\<^verbatim>\<open>Submission.can_be_edited_by\<close>; two user objects are equal when their
  primary keys are.\<close>

definition can_be_edited_by :: "submission \<Rightarrow> user \<Rightarrow> bool" where
  "can_be_edited_by s u =
     (if is_admin u then True
      else if is_mac_officer u \<and> submitted_by s = Some (user_pk u)
           then status s \<in> set [PENDING, RETURNED]
      else False)"

definition submission_edit_view :: "nat \<Rightarrow> request \<Rightarrow> db \<Rightarrow> result" where
  "submission_edit_view pk rq d =
     (case submissions d pk of
        None \<Rightarrow> (Http404, [], d)
      | Some submission \<Rightarrow>
          (case req_user rq of
             None \<Rightarrow> (Server_error, [], d)
           | Some usr \<Rightarrow>
               if \<not> can_be_edited_by submission usr then
                 (Redirect ''submission_detail'' (Some pk),
                  [(Error, ''You don'' @ [CHR 0x27] @ ''t have permission to edit this submission.'')],
                  d)
               else if req_method rq = ''POST'' then
                 (let ttl = POST rq ''title'';
                      ctype = POST rq ''content_type'';
                      descr = POST rq ''description'';
                      tgs = get_default (POST rq) ''tags'' '''';
                      confidential = (POST rq ''is_confidential'' = Some ''on'');
                      fl = FILES rq ''file'';
                      errors = (if \<not> truthy ttl then [''Title is required''] else [])
                             @ (if \<not> truthy descr then [''Description is required''] else [])
                  in if errors \<noteq> [] then
                       (Render ''core/submission_edit.html'', map (Pair Error) errors, d)
                     else
                       (case (ttl, descr) of
                          (Some t, Some ds) \<Rightarrow>
                            (let s1 = submission\<lparr>title := t, content_type := ctype,
                                                  description := ds, tags := tgs,
                                                  is_confidential := confidential\<rparr>;
                                 s2 = (case fl of
                                         None \<Rightarrow> s1
                                       | Some f \<Rightarrow> if f \<noteq> [] then s1\<lparr>upload_file := f\<rparr> else s1);
                                 s3 = (if status s2 = RETURNED then s2\<lparr>status := PENDING\<rparr>
                                       else s2);
                                 d1 = save pk s3 d;
                                 d2 = log_activity usr SUBMISSION_UPDATED (Some pk)
                                        (''Updated submission: '' @ t) (Some rq) d1
                             in (Redirect ''submission_detail'' (Some pk),
                                 [(Success, ''Submission updated successfully!'')], d2))
                        | _ \<Rightarrow> (Server_error, [], d)))
               else (Render ''core/submission_edit.html'', [], d)))"

definition submission_edit :: "request \<Rightarrow> nat \<Rightarrow> db \<Rightarrow> result" where
  "submission_edit rq pk d = login_required (submission_edit_view pk) rq d"

section \<open>Deleting a submission (core/views.py, submission\_delete)\<close>

text \<open>
  \<^verbatim>\<open>submission.delete()\<close>: Django removes the row and, before it, every row that
  points to it through a foreign key declared with \<^verbatim>\<open>on_delete=models.CASCADE\<close>.
  In \<^verbatim>\<open>core/models.py\<close> these are \<^verbatim>\<open>ActivityLog.submission\<close>,
  \<^verbatim>\<open>Notification.submission\<close> and \<^verbatim>\<open>Comment.submission\<close>.
\<close>

definition delete_submission :: "nat \<Rightarrow> db \<Rightarrow> db" where
  "delete_submission pk d =
     d\<lparr>submissions := (submissions d)(pk := None),
       activity_logs := filter (\<lambda>l. log_submission l \<noteq> Some pk) (activity_logs d),
       notifications := filter (\<lambda>n. notif_submission n \<noteq> Some pk) (notifications d)\<rparr>"

definition submission_delete_view :: "nat \<Rightarrow> request \<Rightarrow> db \<Rightarrow> result" where
  "submission_delete_view pk rq d =
     (case submissions d pk of
        None \<Rightarrow> (Http404, [], d)
      | Some submission \<Rightarrow>
          (case req_user rq of
             None \<Rightarrow> (Server_error, [], d)
           | Some usr \<Rightarrow>
               (let can_delete =
                      (if is_admin usr then True
                       else if submitted_by submission = Some (user_pk usr)
                               \<and> status submission = PENDING then True
                       else False)
                in if \<not> can_delete then
                     (Redirect ''submission_detail'' (Some pk),
                      [(Error, ''You don'' @ [CHR 0x27]
                                 @ ''t have permission to delete this submission.'')],
                      d)
                   else if req_method rq = ''POST'' then
                     (case macs d (mac submission) of
                        None \<Rightarrow> (Server_error, [], d)
                      | Some mac_of_submission \<Rightarrow>
                          (let ttl = title submission;
                               mac_name = acronym mac_of_submission;
                               d1 = log_activity usr SUBMISSION_UPDATED None
                                      (''Deleted submission: '' @ ttl @ '' from '' @ mac_name)
                                      (Some rq) d;
                               d2 = delete_submission pk d1
                           in (Redirect ''submission_list'' None,
                               [(Success, ''Submission '' @ [CHR 0x27] @ ttl @ [CHR 0x27]
                                            @ '' has been deleted.'')],
                               d2)))
                   else (Render ''core/submission_delete.html'', [], d))))"

definition submission_delete :: "request \<Rightarrow> nat \<Rightarrow> db \<Rightarrow> result" where
  "submission_delete rq pk d = login_required (submission_delete_view pk) rq d"

section \<open>Changing the agencies' flags\<close>

text \<open>The database with the \<^verbatim>\<open>is_active\<close> column of every agency overwritten: the
  agency with key \<open>k\<close> gets \<open>flag k\<close>. It is used to state that a view does not depend
  on the column.\<close>

definition with_mac_flags :: "(nat \<Rightarrow> bool) \<Rightarrow> db \<Rightarrow> db" where
  "with_mac_flags flag d =
     d\<lparr>macs := (\<lambda>k. map_option (\<lambda>row. row\<lparr>mac_is_active := flag k\<rparr>) (macs d k))\<rparr>"

section \<open>Sample data\<close>

text \<open>
  A small installation used to run the views on concrete input: an officer of an
  active agency, an active and a deactivated reviewer, an administrator, and an officer
  of a deactivated agency. \<open>db1\<close> is \<open>db0\<close> after the first officer has submitted
  ``Flood Update''.
\<close>

definition officer :: user where
  "officer = \<lparr>user_pk = 1, username = ''officer'', role = MAC_OFFICER, user_mac = Some 1,
               user_is_active = True\<rparr>"

definition reviewer :: user where
  "reviewer = \<lparr>user_pk = 2, username = ''reviewer'', role = MICAT_REVIEWER, user_mac = None,
                user_is_active = True\<rparr>"

definition retired_reviewer :: user where
  "retired_reviewer = \<lparr>user_pk = 3, username = ''retired'', role = MICAT_REVIEWER,
                        user_mac = None, user_is_active = False\<rparr>"

definition administrator :: user where
  "administrator = \<lparr>user_pk = 4, username = ''admin'', role = ADMIN, user_mac = None,
                     user_is_active = True\<rparr>"

definition second_officer :: user where
  "second_officer = \<lparr>user_pk = 5, username = ''officer2'', role = MAC_OFFICER,
                      user_mac = Some 2, user_is_active = True\<rparr>"

definition db0 :: db where
  "db0 = \<lparr>users = [officer, reviewer, retired_reviewer, administrator, second_officer],
          macs = [1 \<mapsto> \<lparr>acronym = ''MOH'', mac_is_active = True\<rparr>,
                  2 \<mapsto> \<lparr>acronym = ''MOE'', mac_is_active = False\<rparr>],
          submissions = Map.empty, activity_logs = [], notifications = [],
          submission_seq = 1\<rparr>"

definition request_of :: "user \<Rightarrow> string \<Rightarrow> (string \<rightharpoonup> string) \<Rightarrow> request" where
  "request_of u m p =
     \<lparr>req_user = Some u, req_method = m, POST = p, FILES = [''file'' \<mapsto> ''flood.pdf''],
      META = [''REMOTE_ADDR'' \<mapsto> ''10.0.0.7''], now = (\<lambda>k. 100 + k)\<rparr>"

definition flood_form :: "string \<rightharpoonup> string" where
  "flood_form = [''title'' \<mapsto> ''Flood Update'', ''description'' \<mapsto> ''Water levels'',
                 ''content_type'' \<mapsto> ''PRESS_RELEASE'']"

definition flood :: submission where
  "flood = \<lparr>title = ''Flood Update'', content_type = Some ''PRESS_RELEASE'',
     description = ''Water levels'', tags = [], upload_file = ''flood.pdf'',
     mac = 1, submitted_by = Some 1, reviewed_by = None, status = PENDING,
     is_confidential = False, is_published = False, priority = ''MEDIUM'',
     reviewer_comments = [], denial_reason = [], submitted_at = 100,
     reviewed_at = None, approved_at = None, published_at = None\<rparr>"

definition flood_created :: activity_log where
  "flood_created = \<lparr>log_user = Some 1, log_action = SUBMISSION_CREATED,
     log_submission = Some 1, log_description = ''Created submission: Flood Update'',
     ip_address = Some ''10.0.0.7''\<rparr>"

definition db1 :: db where
  "db1 = db0\<lparr>submissions := [1 \<mapsto> flood], activity_logs := [flood_created],
            notifications := [\<lparr>notif_user = 2, notif_title = ''New Submission'',
                               notif_message = ''MOH submitted: Flood Update'',
                               notif_submission = Some 1, is_read = False\<rparr>],
            submission_seq := 2\<rparr>"





text \<open>An officer account with no agency.\<close>

definition unassigned_officer :: user where
  "unassigned_officer = \<lparr>user_pk = 6, username = ''officer3'', role = MAC_OFFICER,
                          user_mac = None, user_is_active = True\<rparr>"

section \<open>Facts about the review view\<close>

lemmas sample_defs = officer_def reviewer_def retired_reviewer_def administrator_def
  second_officer_def db0_def request_of_def flood_form_def flood_def flood_created_def db1_def

lemmas view_defs = login_required_def role_required_def mac_officer_required_def
  micat_reviewer_required_def truthy_def get_default_def log_activity_def
  create_notification_def save_def db_of_def response_of_def messages_of_def Let_def


lemma submission_review_as_reviewer:
  "req_user rq = Some u \<Longrightarrow> role u = MICAT_REVIEWER \<Longrightarrow>
   submission_review rq pk d = submission_review_view pk rq d"
  by (simp add: submission_review_def login_required_def micat_reviewer_required_def
      role_required_def)

lemma submission_review_as_other:
  "req_user rq = Some u \<Longrightarrow> role u \<noteq> MICAT_REVIEWER \<Longrightarrow>
   submission_review rq pk d = (Redirect ''dashboard'' None, [(Error, permission_denied_page)], d)"
  by (simp add: submission_review_def login_required_def micat_reviewer_required_def
      role_required_def)

lemma review_view_not_dashboard:
  "response_of (submission_review_view pk rq d) \<noteq> Redirect ''dashboard'' None"
  by (simp add: submission_review_view_def response_of_def Let_def split: option.splits)




section \<open>Further facts about the edit, create and review views\<close>






text \<open>The notification loop of \<^verbatim>\<open>submission_create\<close> appends one row per
  reviewer of the list, in order.\<close>

lemma fold_create_notification:
  "fold (\<lambda>r. create_notification (f r) t m sub) rs d =
     d\<lparr>notifications := notifications d @
         map (\<lambda>r. \<lparr>notif_user = f r, notif_title = t, notif_message = m,
                    notif_submission = sub, is_read = False\<rparr>) rs\<rparr>"
  by (induction rs arbitrary: d) (simp_all add: create_notification_def)

lemma submission_create_as_officer:
  "req_user rq = Some u \<Longrightarrow> role u = MAC_OFFICER \<Longrightarrow>
   submission_create rq d = submission_create_view rq d"
  by (simp add: submission_create_def login_required_def mac_officer_required_def
      role_required_def)






text \<open>\<^verbatim>\<open>submission_create\<close> does not read the agencies' \<^verbatim>\<open>is_active\<close> column.\<close>

lemma create_ignores_mac_flags:
  "submission_create rq (with_mac_flags flag d) =
     (response_of (submission_create rq d), messages_of (submission_create rq d),
      with_mac_flags flag (db_of (submission_create rq d)))"
  by (simp add: submission_create_def login_required_def mac_officer_required_def
      role_required_def submission_create_view_def Let_def with_mac_flags_def
      response_of_def messages_of_def db_of_def log_activity_def fold_create_notification
      split: option.splits)

section \<open>C1: review actions and the current status\<close>




section \<open>C2: who may review\<close>

text \<open>
  Claim C2 says that review transitions are permitted exactly for MICAT\_REVIEWER and
  ADMIN. The view is decorated with \<^verbatim>\<open>micat_reviewer_required\<close>, that is
  \<^verbatim>\<open>role_required('MICAT_REVIEWER')\<close>. What holds instead: for every logged-in
  actor and every submission key, the review view runs exactly when the actor's role is
  MICAT\_REVIEWER; an actor with any other role, ADMIN and MAC\_OFFICER alike, gets the
  permission error and a redirect to the dashboard, and the database is unchanged.
\<close>

theorem review_permitted_iff_micat_reviewer:
  assumes "req_user rq = Some u"
  shows "(role u = MICAT_REVIEWER \<longrightarrow>
            submission_review rq pk d = submission_review_view pk rq d
          \<and> response_of (submission_review rq pk d) \<noteq> Redirect ''dashboard'' None)
       \<and> (role u \<noteq> MICAT_REVIEWER \<longrightarrow>
            submission_review rq pk d =
              (Redirect ''dashboard'' None, [(Error, permission_denied_page)], d))"
  using assms
  by (simp add: submission_review_as_reviewer submission_review_as_other
      review_view_not_dashboard)

text \<open>C2, two instances: the reviewer is let through, the officer is turned away.\<close>

theorem review_permitted_iff_micat_reviewer_witness:
  "req_user (request_of reviewer ''POST'' [''action'' \<mapsto> ''approve'']) = Some reviewer
   \<and> role reviewer = MICAT_REVIEWER
   \<and> response_of (submission_review
        (request_of reviewer ''POST'' [''action'' \<mapsto> ''approve'']) 1 db1)
     \<noteq> Redirect ''dashboard'' None
   \<and> req_user (request_of officer ''POST'' [''action'' \<mapsto> ''approve'']) = Some officer
   \<and> role officer \<noteq> MICAT_REVIEWER
   \<and> submission_review (request_of officer ''POST'' [''action'' \<mapsto> ''approve'']) 1 db1
     = (Redirect ''dashboard'' None, [(Error, permission_denied_page)], db1)"
proof -
  have h1: "req_user (request_of reviewer ''POST'' [''action'' \<mapsto> ''approve'']) = Some reviewer"
    by (simp add: request_of_def)
  have h2: "role reviewer = MICAT_REVIEWER" by (simp add: reviewer_def)
  have h3: "req_user (request_of officer ''POST'' [''action'' \<mapsto> ''approve'']) = Some officer"
    by (simp add: request_of_def)
  have h4: "role officer \<noteq> MICAT_REVIEWER" by (simp add: officer_def)
  show ?thesis
    using h1 h2 h3 h4
      review_permitted_iff_micat_reviewer [OF h1, of 1 db1]
      review_permitted_iff_micat_reviewer [OF h3, of 1 db1]
    by blast
qed

text \<open>C2 fails as stated: the administrator's approve is refused and changes nothing.\<close>

theorem review_by_admin_counterexample:
  "role administrator = ADMIN
   \<and> submission_review (request_of administrator ''POST'' [''action'' \<mapsto> ''approve'']) 1 db1
     = (Redirect ''dashboard'' None, [(Error, permission_denied_page)], db1)"
  by (simp add: administrator_def request_of_def submission_review_def login_required_def
      micat_reviewer_required_def role_required_def)

section \<open>C3: audit entries and the deletion of a submission\<close>

text \<open>
  Claim C3 says that no operation removes an audit entry, deleting a submission
  included. \<^verbatim>\<open>ActivityLog.submission\<close> is declared with
  \<^verbatim>\<open>on_delete=models.CASCADE\<close>, so \<^verbatim>\<open>submission.delete()\<close> removes every
  entry that references the submission. Run on \<open>db1\<close>: the SUBMISSION\_CREATED entry
  written when ``Flood Update'' was created is gone after the administrator deletes the
  submission; only the entry of the deletion itself, written with no submission
  reference, is left.
\<close>

theorem delete_cascades_to_audit_entries:
  "activity_logs db1 = [flood_created]
   \<and> log_submission flood_created = Some 1
   \<and> activity_logs (db_of (submission_delete (request_of administrator ''POST'' Map.empty) 1 db1))
     = [\<lparr>log_user = Some 4, log_action = SUBMISSION_UPDATED, log_submission = None,
         log_description = ''Deleted submission: Flood Update from MOH'',
         ip_address = Some ''10.0.0.7''\<rparr>]
   \<and> flood_created \<notin> set (activity_logs
         (db_of (submission_delete (request_of administrator ''POST'' Map.empty) 1 db1)))"
  by (simp add: sample_defs view_defs submission_delete_def submission_delete_view_def
      delete_submission_def is_admin_def)

section \<open>C4: creating a submission and the officer's agency\<close>

text \<open>
  Claim C4 says that an officer whose agency is inactive cannot create a submission.
  \<^verbatim>\<open>submission_create\<close> tests only whether the officer has an agency. What holds
  instead, for every officer: if the officer is assigned to no agency, the create
  operation is denied with an error message and a redirect to the dashboard, and no
  submission is created (the database is unchanged); and the operation does not consult
  the agencies' \<^verbatim>\<open>is_active\<close> flags: whatever they are set to, the response, the
  messages and the resulting tables are the same.
\<close>

theorem create_needs_a_mac_and_ignores_its_flag:
  assumes "req_user rq = Some u" and "role u = MAC_OFFICER"
  shows "(user_mac u = None \<longrightarrow>
            submission_create rq d =
              (Redirect ''dashboard'' None,
               [(Error, ''You must be assigned to a MAC to submit content.'')], d))
       \<and> submission_create rq (with_mac_flags flag d) =
            (response_of (submission_create rq d), messages_of (submission_create rq d),
             with_mac_flags flag (db_of (submission_create rq d)))"
  using assms
  by (simp add: create_ignores_mac_flags submission_create_as_officer
      submission_create_view_def)

text \<open>C4, an instance: the officer with no agency.\<close>

theorem create_needs_a_mac_and_ignores_its_flag_witness:
  "req_user (request_of unassigned_officer ''POST'' flood_form) = Some unassigned_officer
   \<and> role unassigned_officer = MAC_OFFICER
   \<and> user_mac unassigned_officer = None
   \<and> submission_create (request_of unassigned_officer ''POST'' flood_form) db0
     = (Redirect ''dashboard'' None,
        [(Error, ''You must be assigned to a MAC to submit content.'')], db0)"
proof -
  have h1: "req_user (request_of unassigned_officer ''POST'' flood_form) = Some unassigned_officer"
    by (simp add: request_of_def)
  have h2: "role unassigned_officer = MAC_OFFICER" by (simp add: unassigned_officer_def)
  have h3: "user_mac unassigned_officer = None" by (simp add: unassigned_officer_def)
  show ?thesis
    using h1 h2 h3 create_needs_a_mac_and_ignores_its_flag [OF h1 h2, of db0] by simp
qed

text \<open>C4 fails as stated: the officer of the deactivated agency MOE creates a
  submission, which is stored as PENDING.\<close>

theorem create_for_inactive_mac_counterexample:
  "role second_officer = MAC_OFFICER
   \<and> user_mac second_officer = Some 2
   \<and> map_option mac_is_active (macs db0 2) = Some False
   \<and> response_of (submission_create (request_of second_officer ''POST'' flood_form) db0)
     = Redirect ''submission_detail'' (Some 1)
   \<and> map_option status
        (submissions (db_of (submission_create (request_of second_officer ''POST'' flood_form) db0)) 1)
     = Some PENDING"
  by (simp add: sample_defs view_defs submission_create_def submission_create_view_def)

section \<open>C5: audit entries and notifications of a transition\<close>




section \<open>C6: approved\_at and published\_at\<close>




section \<open>C7: editing a submission\<close>




section \<open>C8: creation notifies the active reviewers\<close>





section \<open>C10: a review request with another action\<close>



end
